theory Spec2Isabelle
  imports Complex_Main "HOL-Library.Multiset"
begin

section \<open>Strings\<close>

text \<open>
  A JavaScript string is a sequence of 16-bit code units. It is modelled as a
  \<^typ>\<open>string\<close>, each \<^typ>\<open>char\<close> standing for the code unit of the same
  number (0 to 255); text with code units above 255 is outside the model.
\<close>

definition dquote :: char where
  "dquote = CHR 0x22"

definition squote :: char where
  "squote = CHR 0x27"

definition comma :: char where
  "comma = CHR 0x2C"

definition newline :: char where
  "newline = CHR 0x0A"

text \<open>
  The white space and line terminators that \<^verbatim>\<open>String.prototype.trim\<close> strips, among the
  code units below 256: TAB, LF, VT, FF, CR, SPACE and NBSP.
\<close>

definition isWhiteSpace :: "char \<Rightarrow> bool" where
  "isWhiteSpace c =
     (c = CHR 0x09 \<or> c = CHR 0x0A \<or> c = CHR 0x0B \<or> c = CHR 0x0C \<or> c = CHR 0x0D \<or>
      c = CHR 0x20 \<or> c = CHR 0xA0)"

definition trimStart :: "string \<Rightarrow> string" where
  "trimStart s = dropWhile isWhiteSpace s"

definition trimEnd :: "string \<Rightarrow> string" where
  "trimEnd s = rev (dropWhile isWhiteSpace (rev s))"

definition trim :: "string \<Rightarrow> string" where
  "trim s = trimEnd (trimStart s)"

section \<open>parseCSVLine\<close>

text \<open>
  \<^verbatim>\<open>
  parseCSVLine(line) {
    const result = []; let current = ""; let inQuotes = false;
    for (let i = 0; i < line.length; i++) {
      const char = line[i];
      if (char === '"') { inQuotes = !inQuotes; }
      else if (char === "," && !inQuotes) { result.push(current.trim()); current = ""; }
      else { current += char; }
    }
    result.push(current.trim());
    return result;
  }
  \<close>
  The loop is a recursion over the characters still to be read, carrying the three
  variables of the source.
\<close>

fun parseCSVLine_loop :: "string \<Rightarrow> string list \<Rightarrow> string \<Rightarrow> bool \<Rightarrow> string list" where
  "parseCSVLine_loop [] result current inQuotes = result @ [trim current]"
| "parseCSVLine_loop (char # rest) result current inQuotes =
     (if char = dquote then parseCSVLine_loop rest result current (\<not> inQuotes)
      else if char = comma \<and> \<not> inQuotes
        then parseCSVLine_loop rest (result @ [trim current]) [] inQuotes
      else parseCSVLine_loop rest result (current @ [char]) inQuotes)"

definition parseCSVLine :: "string \<Rightarrow> string list" where
  "parseCSVLine line = parseCSVLine_loop line [] [] False"

subsection \<open>What the tokenizer is meant to do\<close>

text \<open>
  A comma lies outside double quotes when an even number of double-quote characters
  precedes it. \<open>separators line\<close> lists the positions of these commas,
  \<open>cuts 0 (separators line) line\<close> the pieces of the line between them, and
  \<open>joinFields\<close> puts pieces back together with commas. \<open>separatorsFrom q\<close>
  is the same for a line that starts inside quotes (\<open>q\<close> true).
\<close>

definition removeQuotes :: "string \<Rightarrow> string" where
  "removeQuotes s = filter (\<lambda>c. c \<noteq> dquote) s"

definition quotesBefore :: "string \<Rightarrow> nat \<Rightarrow> nat" where
  "quotesBefore line i = length (filter (\<lambda>c. c = dquote) (take i line))"

definition separatorsFrom :: "bool \<Rightarrow> string \<Rightarrow> nat list" where
  "separatorsFrom q line =
     filter (\<lambda>i. line ! i = comma \<and> (even (quotesBefore line i) \<noteq> q)) [0..<length line]"

definition separators :: "string \<Rightarrow> nat list" where
  "separators line = separatorsFrom False line"

fun cuts :: "nat \<Rightarrow> nat list \<Rightarrow> string \<Rightarrow> string list" where
  "cuts start [] line = [drop start line]"
| "cuts start (p # ps) line = take (p - start) (drop start line) # cuts (Suc p) ps line"

fun joinFields :: "string list \<Rightarrow> string" where
  "joinFields [] = []"
| "joinFields [seg] = seg"
| "joinFields (seg # segs) = seg @ comma # joinFields segs"

section \<open>Values, objects and faults\<close>

text \<open>
  A JavaScript expression never stops on an out-of-range index, a missing property or a
  zero divisor: it yields \<^verbatim>\<open>undefined\<close>, \<^verbatim>\<open>NaN\<close> or an infinity. In
  \<open>calculateStats\<close>, whose result is a pair of finite numbers, the model returns a
  \<open>fault\<close> where such a value would enter the result, so that a claim that this
  cannot happen is a claim that the \<open>Inl\<close> branch is never taken.
  \<open>TypeError\<close> is the exception of reading a property of \<^verbatim>\<open>null\<close> or
  \<^verbatim>\<open>undefined\<close>.
\<close>

datatype fault = TypeError | UndefinedOperand | ZeroDivisor

text \<open>
  A row is an object made by \<^verbatim>\<open>{}\<close> whose properties are set by
  \<^verbatim>\<open>row[header] = ...\<close> and read by \<^verbatim>\<open>row[columnName]\<close>. The map holds its own
  properties. Such an object inherits from \<^verbatim>\<open>Object.prototype\<close>: assigning a string
  to \<^verbatim>\<open>__proto__\<close> runs the inherited setter, which ignores a value that is neither an
  object nor \<^verbatim>\<open>null\<close>, and creates no property; reading a name that is not an own
  property yields the inherited function or object for the names of
  \<^verbatim>\<open>Object.prototype\<close>, and \<^verbatim>\<open>undefined\<close> for every other name.
\<close>

type_synonym row = "string \<rightharpoonup> string"

datatype jsval = JString string | JUndefined | JObject

definition objectPrototypeNames :: "string list" where
  "objectPrototypeNames =
     [''__proto__'', ''constructor'', ''hasOwnProperty'', ''isPrototypeOf'',
      ''propertyIsEnumerable'', ''toLocaleString'', ''toString'', ''valueOf'',
      ''__defineGetter__'', ''__defineSetter__'', ''__lookupGetter__'', ''__lookupSetter__'']"

definition setProp :: "row \<Rightarrow> string \<Rightarrow> string \<Rightarrow> row" where
  "setProp row key v = (if key = ''__proto__'' then row else row(key \<mapsto> v))"

definition getProp :: "row \<Rightarrow> string \<Rightarrow> jsval" where
  "getProp row key =
     (case row key of
        Some v \<Rightarrow> JString v
      | None \<Rightarrow> if key \<in> set objectPrototypeNames then JObject else JUndefined)"

section \<open>parseCSV\<close>

text \<open>
  \<^verbatim>\<open>
  parseCSV(csvText) {
    const lines = csvText.trim().split("\n");
    const headers = this.parseCSVLine(lines[0]);
    const data = [];
    for (let i = 1; i < lines.length; i++) {
      const values = this.parseCSVLine(lines[i]);
      const row = {};
      headers.forEach((header, index) => { row[header] = values[index] || ""; });
      data.push(row);
    }
    this.csvData = { headers, data };
    this.detectDateColumn();
    this.populateColumnSelect(); this.showControls(); this.setupDateFilter();
  }
  \<close>
  The state of the visualizer is its dataset and its detected date column. The last three
  calls only write to the page (the options of the column selector, the visibility of the
  controls, the initial values of the two date inputs) and are not part of the model; the
  values of the date inputs are arguments of the functions that read them.
\<close>

fun splitOn :: "char \<Rightarrow> string \<Rightarrow> string list" where
  "splitOn sep [] = [[]]"
| "splitOn sep (c # cs) =
     (if c = sep then [] # splitOn sep cs
      else (case splitOn sep cs of [] \<Rightarrow> [[c]] | piece # pieces \<Rightarrow> (c # piece) # pieces))"

text \<open>\<^verbatim>\<open>values[index] || ""\<close>: the empty string for a missing field and for an empty one.\<close>

definition valueOrEmpty :: "string list \<Rightarrow> nat \<Rightarrow> string" where
  "valueOrEmpty values index =
     (if index < length values \<and> values ! index \<noteq> [] then values ! index else [])"

definition buildRow :: "string list \<Rightarrow> string list \<Rightarrow> row" where
  "buildRow headers values =
     foldl (\<lambda>row (header, index). setProp row header (valueOrEmpty values index))
       Map.empty (zip headers [0..<length headers])"

record csvData =
  headers :: "string list"
  data :: "row list"

record visualizer =
  csvData :: "csvData option"
  dateColumn :: "string option"

text \<open>The constructor: \<^verbatim>\<open>this.csvData = null; this.dateColumn = null;\<close>\<close>

definition initial :: visualizer where
  "initial = \<lparr>csvData = None, dateColumn = None\<rparr>"

definition dateColumnNames :: "string list" where
  "dateColumnNames = [''date'', ''Date'', ''Datum'', ''datum'', ''Datum & Zeit'', ''datum & zeit'']"

text \<open>
  \<^verbatim>\<open>
  for (const columnName of dateColumnNames) {
    if (this.csvData.headers.includes(columnName)) { this.dateColumn = columnName; break; }
  }
  \<close>
  When no name is found the date column of an earlier file stays.
\<close>

definition detectDateColumn :: "visualizer \<Rightarrow> fault + visualizer" where
  "detectDateColumn this =
     (case csvData this of
        None \<Rightarrow> Inl TypeError
      | Some cd \<Rightarrow>
          Inr (case find (\<lambda>columnName. columnName \<in> set (headers cd)) dateColumnNames of
                 None \<Rightarrow> this
               | Some columnName \<Rightarrow> this\<lparr>dateColumn := Some columnName\<rparr>))"

definition parseCSV :: "string \<Rightarrow> visualizer \<Rightarrow> fault + visualizer" where
  "parseCSV csvText this =
     (case splitOn newline (trim csvText) of
        [] \<Rightarrow> Inl TypeError
      | first # rest \<Rightarrow>
          let headers = parseCSVLine first;
              data = map (\<lambda>line. buildRow headers (parseCSVLine line)) rest
          in detectDateColumn (this\<lparr>csvData := Some \<lparr>headers = headers, data = data\<rparr>\<rparr>))"

text \<open>The dataset the visualizer holds after a call, if the call returned.\<close>

definition loadedData :: "fault + visualizer \<Rightarrow> csvData option" where
  "loadedData outcome = (case outcome of Inl e \<Rightarrow> None | Inr that \<Rightarrow> csvData that)"

section \<open>calculateStats and getDistribution\<close>

text \<open>
  A number that reaches the statistics is a finite double: \<open>getNumericValues\<close> filters
  out \<^verbatim>\<open>NaN\<close> and the infinities. It is modelled as the rational it denotes, and
  arithmetic is exact: rounding, overflow and the sign of zero are not modelled.
  \<^verbatim>\<open>
  calculateStats(values) {
    if (values.length === 0) return { average: 0, median: 0 };
    const sum = values.reduce((acc, val) => acc + val, 0);
    const average = sum / values.length;
    const sorted = [...values].sort((a, b) => a - b);
    const median = sorted.length % 2 === 0
        ? (sorted[sorted.length / 2 - 1] + sorted[sorted.length / 2]) / 2
        : sorted[Math.floor(sorted.length / 2)];
    return { average, median };
  }
  \<close>
  \<^verbatim>\<open>sort\<close> with the comparator \<^verbatim>\<open>a - b\<close> is a stable sort into ascending order.
  An index outside the array yields \<^verbatim>\<open>undefined\<close> and a zero divisor yields no
  finite number: both are faults of the model. The two indices of the even branch are
  computed there only, where half the length is an integer.
\<close>

record stats =
  average :: rat
  median :: rat

definition elementAt :: "rat list \<Rightarrow> int \<Rightarrow> fault + rat" where
  "elementAt xs i =
     (if 0 \<le> i \<and> i < int (length xs) then Inr (xs ! nat i) else Inl UndefinedOperand)"

definition jsDivide :: "rat \<Rightarrow> rat \<Rightarrow> fault + rat" where
  "jsDivide a b = (if b = 0 then Inl ZeroDivisor else Inr (a / b))"

definition calculateStats :: "rat list \<Rightarrow> fault + stats" where
  "calculateStats values =
     (if length values = 0 then Inr \<lparr>average = 0, median = 0\<rparr>
      else
        let total = foldl (\<lambda>acc val. acc + val) 0 values in
        case jsDivide total (of_nat (length values)) of
          Inl e \<Rightarrow> Inl e
        | Inr avg \<Rightarrow>
            let srt = sort values in
            case (if length srt mod 2 = 0
                  then (case elementAt srt (int (length srt) div 2 - 1) of
                          Inl e \<Rightarrow> Inl e
                        | Inr lower \<Rightarrow>
                            (case elementAt srt (int (length srt) div 2) of
                               Inl e \<Rightarrow> Inl e
                             | Inr upper \<Rightarrow> jsDivide (lower + upper) 2))
                  else elementAt srt (int (length srt) div 2)) of
              Inl e \<Rightarrow> Inl e
            | Inr med \<Rightarrow> Inr \<lparr>average = avg, median = med\<rparr>)"

text \<open>
  \<^verbatim>\<open>
  getDistribution(values) {
    const distribution = {};
    values.forEach((val) => { distribution[val] = (distribution[val] || 0) + 1; });
    return distribution;
  }
  \<close>
  The property key of a number is its decimal string, and different finite numbers have
  different strings, so the keys are modelled as the numbers themselves. No such string is
  a name of \<^verbatim>\<open>Object.prototype\<close>: a key that was not set reads as
  \<^verbatim>\<open>undefined\<close>, and \<^verbatim>\<open>undefined || 0\<close> is 0.
\<close>

definition getDistribution :: "rat list \<Rightarrow> (rat \<rightharpoonup> nat)" where
  "getDistribution values =
     foldl (\<lambda>distribution val.
              distribution(val \<mapsto> (case distribution val of None \<Rightarrow> 0 | Some n \<Rightarrow> n) + 1))
       Map.empty values"


section \<open>Dates\<close>

text \<open>
  A \<^verbatim>\<open>Date\<close> object holds a time value in milliseconds, or \<^verbatim>\<open>NaN\<close> (an invalid
  date). The dates of this program are built from local calendar fields and only compared
  with each other, so the time value is modelled on the local time line: the offset of the
  local time zone is taken as constant. \<open>makeDay\<close>, \<open>timeClip\<close> and the year
  rule of the constructor follow the abstract operations of the language standard; integer
  division rounds down, as \<^verbatim>\<open>floor\<close> does.
\<close>

datatype jsdate = DateAt int | InvalidDate

definition msPerDay :: int where
  "msPerDay = 86400000"

definition daysInYear :: "int \<Rightarrow> int" where
  "daysInYear y =
     (if y mod 4 \<noteq> 0 then 365 else if y mod 100 \<noteq> 0 then 366
      else if y mod 400 \<noteq> 0 then 365 else 366)"

definition dayFromYear :: "int \<Rightarrow> int" where
  "dayFromYear y =
     365 * (y - 1970) + (y - 1969) div 4 - (y - 1901) div 100 + (y - 1601) div 400"

text \<open>The days of a year before its month \<open>mn\<close> (0 to 11).\<close>

definition daysBeforeMonth :: "int \<Rightarrow> bool \<Rightarrow> int" where
  "daysBeforeMonth mn leap =
     [0, 31, 59, 90, 120, 151, 181, 212, 243, 273, 304, 334] ! nat mn +
     (if leap \<and> 2 \<le> mn then 1 else 0)"

definition makeDay :: "int \<Rightarrow> int \<Rightarrow> int \<Rightarrow> int" where
  "makeDay year month date =
     (let ym = year + month div 12; mn = month mod 12
      in dayFromYear ym + daysBeforeMonth mn (daysInYear ym = 366) + date - 1)"

definition makeFullYear :: "int \<Rightarrow> int" where
  "makeFullYear y = (if 0 \<le> y \<and> y \<le> 99 then 1900 + y else y)"

definition timeClip :: "int \<Rightarrow> jsdate" where
  "timeClip t = (if 8640000000000000 < \<bar>t\<bar> then InvalidDate else DateAt t)"

text \<open>
  \<^verbatim>\<open>new Date(year, monthIndex, day)\<close> on numbers; \<open>None\<close> is the argument
  \<^verbatim>\<open>NaN\<close>.
\<close>

definition newDate :: "int option \<Rightarrow> int option \<Rightarrow> int option \<Rightarrow> jsdate" where
  "newDate year monthIndex day =
     (case (year, monthIndex, day) of
        (Some y, Some m, Some d) \<Rightarrow> timeClip (makeDay (makeFullYear y) m d * msPerDay)
      | _ \<Rightarrow> InvalidDate)"

text \<open>\<^verbatim>\<open>date.setHours(23, 59, 59, 999)\<close>\<close>

definition setHoursEndOfDay :: "jsdate \<Rightarrow> jsdate" where
  "setHoursEndOfDay date =
     (case date of
        InvalidDate \<Rightarrow> InvalidDate
      | DateAt t \<Rightarrow>
          timeClip ((t div msPerDay) * msPerDay + (23 * 3600000 + 59 * 60000 + 59 * 1000 + 999)))"

text \<open>\<^verbatim>\<open>a <= b\<close> on dates compares the time values, and is false on an invalid date.\<close>

definition dateLe :: "jsdate \<Rightarrow> jsdate \<Rightarrow> bool" where
  "dateLe a b = (case (a, b) of (DateAt s, DateAt t) \<Rightarrow> s \<le> t | _ \<Rightarrow> False)"

subsection \<open>The calendar\<close>






subsection \<open>Digits\<close>

definition isDigit :: "char \<Rightarrow> bool" where
  "isDigit c = (c \<in> set ''0123456789'')"

definition digitValue :: "char \<Rightarrow> int" where
  "digitValue c = int (of_char c) - 48"

definition digitsValue :: "string \<Rightarrow> int" where
  "digitsValue ds = foldl (\<lambda>n c. 10 * n + digitValue c) 0 ds"

subsection \<open>The regular expression of parseDate\<close>

text \<open>
  \<^verbatim>\<open>/(\d{1,2})\.(\d{1,2})\.(\d{4})/\<close> matched by \<^verbatim>\<open>String.prototype.match\<close>: the
  first position of the string where the expression matches, and there the first match of
  the backtracking search, which tries two digits before one for the day, and for each
  choice two digits before one for the month.
\<close>

definition digitRun :: "nat \<Rightarrow> string \<Rightarrow> (string \<times> string) option" where
  "digitRun n s =
     (if n \<le> length s \<and> list_all isDigit (take n s) then Some (take n s, drop n s) else None)"

definition expectDot :: "string \<Rightarrow> string option" where
  "expectDot s = (case s of [] \<Rightarrow> None | c # rest \<Rightarrow> if c = CHR ''.'' then Some rest else None)"

definition attempt :: "nat \<Rightarrow> nat \<Rightarrow> string \<Rightarrow> (string \<times> string \<times> string) option" where
  "attempt dayLength monthLength s =
     (case digitRun dayLength s of None \<Rightarrow> None | Some (day, r1) \<Rightarrow>
      case expectDot r1 of None \<Rightarrow> None | Some r2 \<Rightarrow>
      case digitRun monthLength r2 of None \<Rightarrow> None | Some (month, r3) \<Rightarrow>
      case expectDot r3 of None \<Rightarrow> None | Some r4 \<Rightarrow>
      case digitRun 4 r4 of None \<Rightarrow> None | Some (year, r5) \<Rightarrow> Some (day, month, year))"

definition matchAt :: "string \<Rightarrow> (string \<times> string \<times> string) option" where
  "matchAt s =
     (case attempt 2 2 s of Some m \<Rightarrow> Some m | None \<Rightarrow>
      case attempt 2 1 s of Some m \<Rightarrow> Some m | None \<Rightarrow>
      case attempt 1 2 s of Some m \<Rightarrow> Some m | None \<Rightarrow> attempt 1 1 s)"

fun matchFirst :: "string \<Rightarrow> (string \<times> string \<times> string) option" where
  "matchFirst [] = None"
| "matchFirst (c # cs) =
     (case matchAt (c # cs) of Some m \<Rightarrow> Some m | None \<Rightarrow> matchFirst cs)"

subsection \<open>parseDate\<close>

text \<open>
  \<^verbatim>\<open>
  parseDate(dateString) {
    if (!dateString || typeof dateString !== "string") { return null; }
    const cleanDateString = dateString.replace(/['"]/g, "");
    const match = cleanDateString.match(/(\d{1,2})\.(\d{1,2})\.(\d{4})/);
    if (match) {
      const [, day, month, year] = match;
      return new Date(year, month - 1, day);
    }
    return null;
  }
  \<close>
  The three groups are digit strings, which the constructor and the subtraction convert to
  the numbers they spell.
\<close>

text \<open>\<^verbatim>\<open>dateString.replace(/['"]/g, "")\<close>\<close>

definition stripQuotes :: "string \<Rightarrow> string" where
  "stripQuotes s = filter (\<lambda>c. c \<noteq> squote \<and> c \<noteq> dquote) s"

definition parseDate :: "jsval \<Rightarrow> jsdate option" where
  "parseDate dateString =
     (case dateString of
        JString s \<Rightarrow>
          if s = [] then None
          else
            let cleanDateString = stripQuotes s in
            (case matchFirst cleanDateString of
               Some (day, month, year) \<Rightarrow>
                 Some (newDate (Some (digitsValue year)) (Some (digitsValue month - 1))
                         (Some (digitsValue day)))
             | None \<Rightarrow> None)
      | JUndefined \<Rightarrow> None
      | JObject \<Rightarrow> None)"

subsection \<open>The pattern, as the specification words it\<close>

text \<open>
  A day and a month of one or two digits and a year of four digits, separated by dots,
  anywhere in the string: whatever precedes and follows, a time such as
  \<^verbatim>\<open>, 10:30\<close> included, is not looked at.
\<close>

definition isDatePattern :: "string \<Rightarrow> string \<Rightarrow> string \<Rightarrow> bool" where
  "isDatePattern day month year =
     (list_all isDigit day \<and> (length day = 1 \<or> length day = 2) \<and>
      list_all isDigit month \<and> (length month = 1 \<or> length month = 2) \<and>
      list_all isDigit year \<and> length year = 4)"


section \<open>getFilteredData\<close>

text \<open>
  \<^verbatim>\<open>parseInt(string)\<close> with no radix: leading white space is skipped, a sign is read,
  the prefix \<^verbatim>\<open>0x\<close> or \<^verbatim>\<open>0X\<close> selects radix 16, and the longest run of digits of
  the radix is the value; \<open>None\<close> is \<^verbatim>\<open>NaN\<close>, the result when there is no digit.
\<close>

definition radixDigit :: "nat \<Rightarrow> char \<Rightarrow> int option" where
  "radixDigit radix c =
     (let v = (if isDigit c then digitValue c
               else if c \<in> set ''abcdefghijklmnopqrstuvwxyz'' then int (of_char c) - 87
               else if c \<in> set ''ABCDEFGHIJKLMNOPQRSTUVWXYZ'' then int (of_char c) - 55
               else 36)
      in if v < int radix then Some v else None)"

definition radixValue :: "nat \<Rightarrow> string \<Rightarrow> int" where
  "radixValue radix ds =
     foldl (\<lambda>n c. int radix * n + (case radixDigit radix c of Some v \<Rightarrow> v | None \<Rightarrow> 0)) 0 ds"

definition parseInt :: "string \<Rightarrow> int option" where
  "parseInt string =
     (let s = trimStart string;
          negative = (s \<noteq> [] \<and> hd s = CHR ''-'');
          s1 = (if s \<noteq> [] \<and> (hd s = CHR ''+'' \<or> hd s = CHR ''-'') then tl s else s);
          hex = (take 2 s1 = ''0x'' \<or> take 2 s1 = ''0X'');
          radix = (if hex then 16 else 10);
          s2 = (if hex then drop 2 s1 else s1);
          z = takeWhile (\<lambda>c. radixDigit radix c \<noteq> None) s2
      in if z = [] then None
         else Some ((if negative then - 1 else 1) * radixValue radix z))"

text \<open>
  \<^verbatim>\<open>parseInt(parts[i])\<close> for the parts of an input value split at \<^verbatim>\<open>-\<close>: a missing
  part is \<^verbatim>\<open>undefined\<close>, which \<^verbatim>\<open>parseInt\<close> turns into \<^verbatim>\<open>NaN\<close>.
\<close>

definition parseIntPart :: "string list \<Rightarrow> nat \<Rightarrow> int option" where
  "parseIntPart parts i = (if i < length parts then parseInt (parts ! i) else None)"

text \<open>
  The date of an input value, as \<open>getFilteredData\<close> builds it for both inputs:
  \<^verbatim>\<open>
  const parts = input.value.split("-");
  new Date(parseInt(parts[0]), parseInt(parts[1]) - 1, parseInt(parts[2]))
  \<close>
\<close>

definition inputDate :: "string \<Rightarrow> jsdate" where
  "inputDate inputValue =
     (let parts = splitOn CHR ''-'' inputValue
      in newDate (parseIntPart parts 0) (map_option (\<lambda>m. m - 1) (parseIntPart parts 1))
           (parseIntPart parts 2))"

text \<open>
  \<^verbatim>\<open>
  getFilteredData() {
    if (!this.dateColumn) { return this.csvData.data; }
    const dateFromInput = document.getElementById("dateFrom");
    const dateToInput = document.getElementById("dateTo");
    if (!dateFromInput.value || !dateToInput.value) { ...; return this.csvData.data; }
    const fromDate = ...; const toDate = ...;
    toDate.setHours(23, 59, 59, 999);
    const filteredData = this.csvData.data.filter((row) => {
      const dateValue = row[this.dateColumn];
      const rowDate = this.parseDate(dateValue);
      if (!rowDate) { return false; }
      return rowDate >= fromDate && rowDate <= toDate;
    });
    ...; return filteredData;
  }
  \<close>
  The values of the two date inputs are the arguments \<open>dateFromValue\<close> and
  \<open>dateToValue\<close>. Reading \<^verbatim>\<open>this.csvData.data\<close> before a file is loaded throws.
\<close>

definition getFilteredData :: "visualizer \<Rightarrow> string \<Rightarrow> string \<Rightarrow> fault + row list" where
  "getFilteredData this dateFromValue dateToValue =
     (case csvData this of
        None \<Rightarrow> Inl TypeError
      | Some cd \<Rightarrow>
          (case dateColumn this of
             None \<Rightarrow> Inr (data cd)
           | Some column \<Rightarrow>
               if dateFromValue = [] \<or> dateToValue = [] then Inr (data cd)
               else
                 let fromDate = inputDate dateFromValue;
                     toDate = setHoursEndOfDay (inputDate dateToValue)
                 in Inr (filter
                           (\<lambda>row. case parseDate (getProp row column) of
                                     None \<Rightarrow> False
                                   | Some rowDate \<Rightarrow> dateLe fromDate rowDate \<and> dateLe rowDate toDate)
                           (data cd))))"

text \<open>
  The range of the filter, as the specification words it: from the from-date up to the end
  (23:59:59.999) of the day of the to-date, that end being a valid time value.
\<close>

definition maxTime :: int where
  "maxTime = 8640000000000000"

definition endOfDay :: "int \<Rightarrow> int" where
  "endOfDay t = (t div msPerDay) * msPerDay + 86399999"

definition inDateRange :: "jsdate \<Rightarrow> jsdate \<Rightarrow> int \<Rightarrow> bool" where
  "inDateRange fromDate toDate d =
     (case (fromDate, toDate) of
        (DateAt f, DateAt t) \<Rightarrow> f \<le> d \<and> d \<le> endOfDay t \<and> endOfDay t \<le> maxTime
      | _ \<Rightarrow> False)"

section \<open>Numbers from strings\<close>

text \<open>
  A number is a finite double, modelled as the rational it denotes, an infinity or
  \<^verbatim>\<open>NaN\<close>. Arithmetic on finite numbers is exact: rounding and the sign of zero are not
  modelled. A numeric literal is too large for a finite double when its value is at least
  \<open>2^1024 - 2^970\<close>, and then denotes an infinity.
\<close>

datatype jsnum = Num rat | PosInfinity | NegInfinity | NaN


definition numNeg :: "jsnum \<Rightarrow> jsnum" where
  "numNeg n =
     (case n of Num x \<Rightarrow> Num (- x) | PosInfinity \<Rightarrow> NegInfinity
      | NegInfinity \<Rightarrow> PosInfinity | NaN \<Rightarrow> NaN)"

definition roundNum :: "rat \<Rightarrow> jsnum" where
  "roundNum q =
     (if 2 ^ 1024 - 2 ^ 970 \<le> q then PosInfinity
      else if q \<le> - (2 ^ 1024 - 2 ^ 970) then NegInfinity
      else Num q)"

text \<open>
  The grammar \<^verbatim>\<open>StrUnsignedDecimalLiteral\<close> of the language standard:
  \<^verbatim>\<open>Infinity\<close>, or digits with an optional fraction and exponent, or a dot with
  digits and an optional exponent. \<open>scanDecimal\<close> reads the longest prefix of a string
  that is such a literal and returns it with the rest of the string; an exponent is part
  of the literal only when it has a digit.
\<close>

datatype literal = InfinityLiteral | Decimal int int

definition scanExponent :: "string \<Rightarrow> int \<times> string" where
  "scanExponent s =
     (case s of
        [] \<Rightarrow> (0, s)
      | c # r \<Rightarrow>
          if c = CHR ''e'' \<or> c = CHR ''E'' then
            (let negative = (r \<noteq> [] \<and> hd r = CHR ''-'');
                 r1 = (if r \<noteq> [] \<and> (hd r = CHR ''+'' \<or> hd r = CHR ''-'') then tl r else r);
                 ds = takeWhile isDigit r1
             in if ds = [] then (0, s)
                else ((if negative then - 1 else 1) * digitsValue ds, dropWhile isDigit r1))
          else (0, s))"

definition scanDecimal :: "string \<Rightarrow> (literal \<times> string) option" where
  "scanDecimal s =
     (if take 8 s = ''Infinity'' then Some (InfinityLiteral, drop 8 s)
      else
        let ip = takeWhile isDigit s; r1 = dropWhile isDigit s;
            dotted = (r1 \<noteq> [] \<and> hd r1 = CHR ''.'');
            fp = (if dotted then takeWhile isDigit (tl r1) else []);
            r2 = (if dotted then dropWhile isDigit (tl r1) else r1)
        in if ip = [] \<and> fp = [] then None
           else
             (case scanExponent r2 of
                (e, r3) \<Rightarrow> Some (Decimal (digitsValue (ip @ fp)) (e - int (length fp)), r3)))"

text \<open>The value of a literal: \<open>m\<close> times ten to the power \<open>e\<close>.\<close>

definition literalValue :: "literal \<Rightarrow> jsnum" where
  "literalValue lit =
     (case lit of
        InfinityLiteral \<Rightarrow> PosInfinity
      | Decimal m e \<Rightarrow>
          roundNum (if 0 \<le> e then of_int m * 10 ^ nat e else of_int m / 10 ^ nat (- e)))"

text \<open>
  \<^verbatim>\<open>parseFloat(value)\<close>: the value is converted to a string, leading white space is
  skipped, a sign is read, and the longest decimal literal that follows is the result;
  \<^verbatim>\<open>NaN\<close> when there is none. The strings of \<^verbatim>\<open>undefined\<close>, of
  \<^verbatim>\<open>Object.prototype\<close> and of its functions start with a letter or a bracket.
\<close>

definition parseFloat :: "jsval \<Rightarrow> jsnum" where
  "parseFloat v =
     (case v of
        JString string \<Rightarrow>
          (let s = trimStart string;
               negative = (s \<noteq> [] \<and> hd s = CHR ''-'');
               s1 = (if s \<noteq> [] \<and> (hd s = CHR ''+'' \<or> hd s = CHR ''-'') then tl s else s)
           in case scanDecimal s1 of
                None \<Rightarrow> NaN
              | Some (lit, rest) \<Rightarrow>
                  if negative then numNeg (literalValue lit) else literalValue lit)
      | JUndefined \<Rightarrow> NaN
      | JObject \<Rightarrow> NaN)"



section \<open>isNumericColumn\<close>





section \<open>getNumericValues\<close>

text \<open>
  \<^verbatim>\<open>
  getNumericValues(columnName) {
    const filteredData = this.getFilteredData();
    return filteredData
      .map((row) => parseFloat(row[columnName]))
      .filter((val) => !isNaN(val) && isFinite(val));
  }
  \<close>
  The values that the statistics, the distribution and the chart are computed from: finite
  numbers only.
\<close>

definition getNumericValues :: "visualizer \<Rightarrow> string \<Rightarrow> string \<Rightarrow> string \<Rightarrow> fault + rat list" where
  "getNumericValues this dateFromValue dateToValue columnName =
     (case getFilteredData this dateFromValue dateToValue of
        Inl e \<Rightarrow> Inl e
      | Inr filteredData \<Rightarrow>
          Inr (List.map_filter
                 (\<lambda>row. case parseFloat (getProp row columnName) of
                           Num x \<Rightarrow> Some x
                         | _ \<Rightarrow> None)
                 filteredData))"

section \<open>getXPositionForValue\<close>












section \<open>Properties of the CSV line tokenizer\<close>

lemma separatorsFrom_Cons:
  "separatorsFrom q (c # rest) =
     (if c = comma \<and> \<not> q then [0] else []) @
     map Suc (separatorsFrom (if c = dquote then \<not> q else q) rest)"
proof -
  have upt: "[0..<length (c # rest)] = 0 # map Suc [0..<length rest]"
    by (simp add: upt_conv_Cons map_Suc_upt del: upt_Suc)
  show ?thesis
    unfolding separatorsFrom_def upt
    by (auto simp: filter_map comp_def quotesBefore_def dquote_def comma_def
        intro!: filter_cong)
qed

lemma cuts_Cons_shift:
  "cuts (Suc start) (map Suc ps) (c # rest) = cuts start ps rest"
  by (induction ps arbitrary: start) auto

lemma cuts_0_map_Suc:
  "cuts 0 (map Suc ps) (c # rest) =
     (case cuts 0 ps rest of seg # segs \<Rightarrow> (c # seg) # segs | [] \<Rightarrow> [])"
  by (cases ps) (auto simp: cuts_Cons_shift)

lemma cuts_nonempty: "cuts start ps line \<noteq> []"
  by (cases ps) auto

lemma parseCSVLine_loop_cuts:
  "parseCSVLine_loop rest result current q =
     result @ (case cuts 0 (separatorsFrom q rest) rest of
                 seg # segs \<Rightarrow> trim (current @ removeQuotes seg) # map (\<lambda>s. trim (removeQuotes s)) segs
               | [] \<Rightarrow> [])"
proof (induction rest arbitrary: result current q)
  case Nil
  then show ?case by (simp add: separatorsFrom_def removeQuotes_def)
next
  case (Cons c rest)
  show ?case
  proof (cases "c = dquote")
    case True
    then have nc: "c \<noteq> comma" by (simp add: dquote_def comma_def)
    show ?thesis
      using True nc Cons.IH[of result current "\<not> q"] cuts_nonempty[of 0 "separatorsFrom (\<not> q) rest" rest]
      by (simp add: separatorsFrom_Cons cuts_0_map_Suc removeQuotes_def split: list.splits)
  next
    case False
    show ?thesis
    proof (cases "c = comma \<and> \<not> q")
      case True
      then show ?thesis
        using False Cons.IH[of "result @ [trim current]" "[]" q]
        by (simp add: separatorsFrom_Cons cuts_Cons_shift removeQuotes_def split: list.splits)
    next
      case F2: False
      then show ?thesis
        using False Cons.IH[of result "current @ [c]" q] cuts_nonempty[of 0 "separatorsFrom q rest" rest]
        by (auto simp add: separatorsFrom_Cons cuts_0_map_Suc removeQuotes_def split: list.splits)
    qed
  qed
qed

lemma parseCSVLine_cuts:
  "parseCSVLine line = map (\<lambda>seg. trim (removeQuotes seg)) (cuts 0 (separators line) line)"
  using cuts_nonempty[of 0 "separators line" line]
  by (simp add: parseCSVLine_def parseCSVLine_loop_cuts separators_def split: list.splits)

lemma trimStart_shape: "trimStart s = [] \<or> \<not> isWhiteSpace (hd (trimStart s))"
  unfolding trimStart_def by (metis hd_dropWhile)

lemma trimEnd_shape: "trimEnd s = [] \<or> \<not> isWhiteSpace (last (trimEnd s))"
  unfolding trimEnd_def by (metis hd_dropWhile last_rev rev_is_Nil_conv)

lemma trimStart_id: "s = [] \<or> \<not> isWhiteSpace (hd s) \<Longrightarrow> trimStart s = s"
  unfolding trimStart_def by (cases s) auto

lemma trimEnd_id: "s = [] \<or> \<not> isWhiteSpace (last s) \<Longrightarrow> trimEnd s = s"
  unfolding trimEnd_def by (cases "rev s") (auto simp: last_rev [symmetric] simp del: last_rev)

lemma trimEnd_keeps_hd:
  "trimEnd s \<noteq> [] \<Longrightarrow> hd (trimEnd s) = hd s"
proof -
  have "\<exists>ws. s = trimEnd s @ ws"
    unfolding trimEnd_def
    by (metis takeWhile_dropWhile_id rev_append rev_rev_ident)
  then obtain ws where "s = trimEnd s @ ws" ..
  moreover assume "trimEnd s \<noteq> []"
  ultimately show ?thesis by (metis hd_append2)
qed

lemma trim_idem: "trim (trim s) = trim s"
proof -
  have e: "trim s = [] \<or> \<not> isWhiteSpace (last (trim s))"
    unfolding trim_def by (rule trimEnd_shape)
  have h: "trim s = [] \<or> \<not> isWhiteSpace (hd (trim s))"
  proof (cases "trim s = []")
    case False
    then have "hd (trim s) = hd (trimStart s)" "trimStart s \<noteq> []"
      unfolding trim_def using trimEnd_keeps_hd by (auto simp: trimEnd_def)
    then show ?thesis using trimStart_shape[of s] by simp
  qed simp
  show ?thesis
    using trimStart_id[OF h] trimEnd_id[OF e] by (simp add: trim_def)
qed

lemma set_trim: "set (trim s) \<subseteq> set s"
  unfolding trim_def trimEnd_def trimStart_def
  by (metis set_dropWhileD set_rev subsetI)

lemma length_cuts: "length (cuts start ps line) = Suc (length ps)"
  by (induction ps arbitrary: start) auto

lemma joinFields_Cons: "segs \<noteq> [] \<Longrightarrow> joinFields (seg # segs) = seg @ comma # joinFields segs"
  by (cases segs) auto

lemma joinFields_cuts:
  "sorted_wrt (<) ps \<Longrightarrow> \<forall>p \<in> set ps. start \<le> p \<and> p < length line \<and> line ! p = comma \<Longrightarrow>
   joinFields (cuts start ps line) = drop start line"
proof (induction ps arbitrary: start)
  case Nil
  then show ?case by simp
next
  case (Cons p ps)
  have p: "start \<le> p" "p < length line" "line ! p = comma" using Cons.prems(2) by auto
  have rest: "joinFields (cuts (Suc p) ps line) = drop (Suc p) line"
    using Cons.prems by (intro Cons.IH) (auto simp: Suc_le_eq)
  have "drop start line = take (p - start) (drop start line) @ drop p line"
    using p by (metis append_take_drop_id drop_drop le_add_diff_inverse2)
  also have "drop p line = comma # drop (Suc p) line"
    using p by (metis Cons_nth_drop_Suc)
  finally show ?case
    using rest by (simp add: joinFields_Cons cuts_nonempty)
qed

lemma separators_props:
  "sorted_wrt (<) (separatorsFrom q line) \<and>
   (\<forall>p \<in> set (separatorsFrom q line). p < length line \<and> line ! p = comma)"
  unfolding separatorsFrom_def by (auto intro: sorted_wrt_filter simp: sorted_wrt_upt)

text \<open>
  C3: for every line, the fields \<open>parseCSVLine\<close> returns are the pieces of the line
  between the commas outside double quotes, in order, each with its double quotes removed
  and then trimmed. Joining the pieces with commas gives the line back, so a comma between
  quotes stays inside its piece; there is one field more than there are commas outside
  quotes; no field holds a double quote, and trimming a field again changes nothing.
\<close>

theorem parseCSVLine_splits_outside_quotes:
  "parseCSVLine line = map (\<lambda>seg. trim (removeQuotes seg)) (cuts 0 (separators line) line) \<and>
   joinFields (cuts 0 (separators line) line) = line \<and>
   length (parseCSVLine line) = Suc (length (separators line)) \<and>
   (\<forall>field \<in> set (parseCSVLine line). dquote \<notin> set field \<and> trim field = field)"
proof -
  have a: "parseCSVLine line = map (\<lambda>seg. trim (removeQuotes seg)) (cuts 0 (separators line) line)"
    by (rule parseCSVLine_cuts)
  have b: "joinFields (cuts 0 (separators line) line) = line"
    using joinFields_cuts[of "separators line" 0 line] separators_props[of False line]
    by (simp add: separators_def)
  have c: "length (parseCSVLine line) = Suc (length (separators line))"
    by (simp add: a length_cuts)
  have d: "\<forall>field \<in> set (parseCSVLine line). dquote \<notin> set field \<and> trim field = field"
  proof
    fix field assume "field \<in> set (parseCSVLine line)"
    then obtain seg where f: "field = trim (removeQuotes seg)" by (auto simp: a)
    have "set field \<subseteq> set (removeQuotes seg)" unfolding f by (rule set_trim)
    then have "dquote \<notin> set field" by (auto simp: removeQuotes_def)
    then show "dquote \<notin> set field \<and> trim field = field" by (simp add: f trim_idem)
  qed
  from a b c d show ?thesis by blast
qed

text \<open>The line \<^verbatim>\<open>a,"b,c", d \<close> has its commas outside quotes at positions 1 and 7.\<close>

theorem parseCSVLine_splits_outside_quotes_witness:
  "parseCSVLine [CHR ''a'', comma, dquote, CHR ''b'', comma, CHR ''c'', dquote, comma, CHR '' '', CHR ''d'', CHR '' '']
     = [''a'', ''b,c'', ''d''] \<and>
   separators [CHR ''a'', comma, dquote, CHR ''b'', comma, CHR ''c'', dquote, comma, CHR '' '', CHR ''d'', CHR '' ''] = [1, 7]"
  using parseCSVLine_splits_outside_quotes
    [of "[CHR ''a'', comma, dquote, CHR ''b'', comma, CHR ''c'', dquote, comma, CHR '' '', CHR ''d'', CHR '' '']"]
  by (simp add: separators_def separatorsFrom_def quotesBefore_def removeQuotes_def trim_def trimStart_def
      trimEnd_def isWhiteSpace_def comma_def dquote_def upt_rec)

section \<open>Properties of parseCSV\<close>

lemma splitOn_nonempty: "splitOn sep s \<noteq> []"
  by (induction s) (auto split: list.splits)

lemma buildRow_foldl_dom:
  "dom (foldl (\<lambda>row (header, index). setProp row header (f index)) r hs) =
     dom r \<union> (fst ` set hs - {''__proto__''})"
  by (induction hs arbitrary: r) (auto simp: setProp_def split: if_splits)

lemma buildRow_dom: "dom (buildRow hs vs) = set hs - {''__proto__''}"
proof -
  have "fst ` set (zip hs [0..<length hs]) = set hs"
    by (metis length_upt map_fst_zip minus_nat.diff_0 set_map)
  then show ?thesis unfolding buildRow_def by (simp add: buildRow_foldl_dom)
qed

lemma parseCSV_loads:
  "loadedData (parseCSV csvText this) =
     Some \<lparr>headers = parseCSVLine (hd (splitOn newline (trim csvText))),
           data = map (\<lambda>line. buildRow (parseCSVLine (hd (splitOn newline (trim csvText)))) (parseCSVLine line))
                    (tl (splitOn newline (trim csvText)))\<rparr>"
  using splitOn_nonempty[of newline "trim csvText"]
  by (auto simp: parseCSV_def loadedData_def detectDateColumn_def Let_def split: list.splits option.splits)

text \<open>
  C8, as the code has it: for every CSV text and every earlier state, \<open>parseCSV\<close>
  returns, and the header list of the dataset it builds is the list of fields of the first
  line of the trimmed text, in the line's order, with repeated names kept. The headers are
  pairwise distinct exactly when the fields of that line are.
\<close>

theorem parseCSV_headers_first_line:
  "map_option headers (loadedData (parseCSV csvText this)) =
     Some (parseCSVLine (hd (splitOn newline (trim csvText)))) \<and>
   map_option (\<lambda>cd. distinct (headers cd)) (loadedData (parseCSV csvText this)) =
     Some (distinct (parseCSVLine (hd (splitOn newline (trim csvText)))))"
  by (simp add: parseCSV_loads)

text \<open>
  C8 as stated fails: the two-line text \<^verbatim>\<open>a,a\<close> / \<^verbatim>\<open>1,2\<close> loads a dataset whose
  header list holds \<open>a\<close> twice.
\<close>

theorem parseCSV_headers_repeated:
  "map_option headers (loadedData (parseCSV (''a,a'' @ [newline] @ ''1,2'') initial)) =
     Some [''a'', ''a''] \<and>
   \<not> distinct [''a'', ''a'']"
  by (simp add: parseCSV_loads trim_def trimStart_def trimEnd_def isWhiteSpace_def newline_def
      parseCSVLine_def comma_def dquote_def)

text \<open>
  C10 at the text \<^verbatim>\<open>__proto__,b\<close> / \<^verbatim>\<open>1,2\<close>: the header list has the two names, and
  the one row has the single key \<open>b\<close>. The assignment to \<^verbatim>\<open>row["__proto__"]\<close> binds
  nothing.
\<close>

theorem parseCSV_proto_header_unbound:
  "map_option (\<lambda>cd. (headers cd, map dom (data cd)))
     (loadedData (parseCSV (''__proto__,b'' @ [newline] @ ''1,2'') initial)) =
   Some ([''__proto__'', ''b''], [{''b''}])"
  by (simp add: parseCSV_loads trim_def trimStart_def trimEnd_def isWhiteSpace_def newline_def
      parseCSVLine_def comma_def dquote_def buildRow_dom)

section \<open>Properties of calculateStats\<close>

lemma foldl_add_sum_list:
  "foldl (\<lambda>acc val. acc + val) a vs = a + sum_list (vs :: rat list)"
  by (induction vs arbitrary: a) (auto simp: algebra_simps)

lemma calculateStats_nonempty:
  assumes "values \<noteq> []"
  shows "calculateStats values =
     Inr \<lparr>average = sum_list values / of_nat (length values),
          median = (if even (length values)
                    then (sort values ! (length values div 2 - 1) + sort values ! (length values div 2)) / 2
                    else sort values ! (length values div 2))\<rparr>"
proof -
  have n: "0 < length values" using assms by simp
  have i1: "nat (int (length values) div 2) = length values div 2"
    by (simp add: nat_div_distrib)
  show ?thesis
  proof (cases "even (length values)")
    case True
    then have two: "2 \<le> length values" using n by presburger
    then have i0: "nat (int (length values) div 2 - 1) = length values div 2 - 1"
      "0 \<le> int (length values) div 2 - 1"
      by (auto simp: nat_diff_distrib' nat_div_distrib)
    show ?thesis using True n two i0 i1
      by (simp add: calculateStats_def Let_def jsDivide_def elementAt_def foldl_add_sum_list)
  next
    case False
    then have "\<not> length values mod 2 = 0" by presburger
    then show ?thesis using n i1 False
      by (simp add: calculateStats_def Let_def jsDivide_def elementAt_def foldl_add_sum_list)
  qed
qed



text \<open>
  C9: \<open>calculateStats\<close> returns statistics for every list. For the empty list they are
  average 0 and median 0; for any other list no index is outside the sorted array and no
  divisor is zero, so that no fault is returned.
\<close>

theorem calculateStats_total:
  "calculateStats [] = Inr \<lparr>average = 0, median = 0\<rparr> \<and>
   (\<forall>vs. \<exists>s. calculateStats vs = Inr s)"
proof -
  have "\<exists>s. calculateStats vs = Inr s" for vs
  proof (cases "vs = []")
    case True
    then show ?thesis by (simp add: calculateStats_def)
  next
    case False
    then show ?thesis by (simp add: calculateStats_nonempty)
  qed
  then show ?thesis by (simp add: calculateStats_def)
qed

section \<open>Properties of getDistribution\<close>

lemma getDistribution_foldl:
  "foldl (\<lambda>distribution val.
              distribution(val \<mapsto> (case distribution val of None \<Rightarrow> 0 | Some n \<Rightarrow> n) + 1)) m vs
   = (\<lambda>v. if v \<in> set vs then Some ((case m v of None \<Rightarrow> 0 | Some n \<Rightarrow> n) + count_list vs v) else m v)"
  by (induction vs arbitrary: m) (auto simp: fun_eq_iff)

lemma getDistribution_counts:
  "getDistribution values = (\<lambda>v. if v \<in> set values then Some (count_list values v) else None)"
  unfolding getDistribution_def getDistribution_foldl by (simp cong: if_cong)

text \<open>
  C7: for every list of numbers, the keys of the mapping \<open>getDistribution\<close> returns are
  exactly the values that occur in the list, each key is mapped to the number of its
  occurrences, and the counts of all keys add up to the length of the list.
\<close>

theorem getDistribution_counts_occurrences:
  "dom (getDistribution values) = set values \<and>
   (\<forall>v \<in> set values. getDistribution values v = Some (count_list values v)) \<and>
   (\<Sum>v \<in> dom (getDistribution values). the (getDistribution values v)) = length values"
proof -
  have d: "dom (getDistribution values) = set values"
    by (auto simp: getDistribution_counts split: if_splits)
  have c: "\<forall>v \<in> set values. getDistribution values v = Some (count_list values v)"
    by (simp add: getDistribution_counts)
  have "(\<Sum>v \<in> set values. the (getDistribution values v)) = (\<Sum>v \<in> set values. count_list values v)"
    by (rule sum.cong) (simp_all add: getDistribution_counts)
  also have "\<dots> = length values"
    by (rule sum_count_set) simp_all
  finally show ?thesis using d c by simp
qed

text \<open>The list 1, 2, 1 gives the keys 1 and 2 with the counts 2 and 1.\<close>

theorem getDistribution_counts_occurrences_witness:
  "dom (getDistribution [1, 2, 1]) = {1, 2} \<and>
   getDistribution [1, 2, 1] 1 = Some 2 \<and> getDistribution [1, 2, 1] 2 = Some 1 \<and>
   (\<Sum>v \<in> dom (getDistribution [1, 2, 1]). the (getDistribution [1, 2, 1] v)) = 3"
  using getDistribution_counts_occurrences[of "[1, 2, 1]"] by auto

section \<open>Properties of parseDate and getFilteredData\<close>

lemma digitRun_SomeD:
  "digitRun n s = Some (ds, rest) \<Longrightarrow> s = ds @ rest \<and> length ds = n \<and> list_all isDigit ds"
  by (auto simp: digitRun_def split: if_splits)


lemma expectDot_SomeD: "expectDot s = Some rest \<Longrightarrow> s = CHR ''.'' # rest"
  by (auto simp: expectDot_def split: list.splits if_splits)

lemma attempt_SomeD:
  assumes "attempt dl ml s = Some (day, month, year)"
  shows "\<exists>after. s = day @ ''.'' @ month @ ''.'' @ year @ after \<and>
           length day = dl \<and> length month = ml \<and> length year = 4 \<and>
           list_all isDigit day \<and> list_all isDigit month \<and> list_all isDigit year"
  using assms unfolding attempt_def
  by (auto split: option.splits dest!: digitRun_SomeD expectDot_SomeD)


lemma matchAt_SomeD:
  assumes "matchAt s = Some (day, month, year)"
  shows "\<exists>after. s = day @ ''.'' @ month @ ''.'' @ year @ after \<and> isDatePattern day month year"
proof -
  from assms obtain dl ml where a: "attempt dl ml s = Some (day, month, year)"
    and l: "dl = 1 \<or> dl = 2" "ml = 1 \<or> ml = 2"
    unfolding matchAt_def by (auto split: option.splits)
  from attempt_SomeD[OF a] l show ?thesis
    unfolding isDatePattern_def by auto
qed


lemma matchFirst_SomeD:
  "matchFirst s = Some (day, month, year) \<Longrightarrow>
   \<exists>before after. s = before @ day @ ''.'' @ month @ ''.'' @ year @ after \<and>
     isDatePattern day month year"
proof (induction s)
  case Nil
  then show ?case by simp
next
  case (Cons c cs)
  show ?case
  proof (cases "matchAt (c # cs)")
    case None
    with Cons.prems have "matchFirst cs = Some (day, month, year)" by simp
    from Cons.IH[OF this] obtain before after where
      "cs = before @ day @ ''.'' @ month @ ''.'' @ year @ after" "isDatePattern day month year"
      by blast
    then have "c # cs = (c # before) @ day @ ''.'' @ month @ ''.'' @ year @ after \<and>
        isDatePattern day month year" by simp
    then show ?thesis by blast
  next
    case (Some m)
    with Cons.prems have "matchAt (c # cs) = Some (day, month, year)" by simp
    from matchAt_SomeD[OF this] obtain after where
      "c # cs = [] @ day @ ''.'' @ month @ ''.'' @ year @ after \<and> isDatePattern day month year"
      by auto
    then show ?thesis by blast
  qed
qed














lemma dayFromYear_bounds:
  assumes "0 \<le> y" "y \<le> 10010"
  shows "- 1000000 \<le> dayFromYear y" "dayFromYear y \<le> 3000000"
proof -
  define u v w where "u = (y - 1969) div 4" and "v = (y - 1901) div 100" and "w = (y - 1601) div 400"
  have "- 493 \<le> u" "u \<le> 2011" "- 20 \<le> v" "v \<le> 82" "- 5 \<le> w" "w \<le> 22"
    unfolding u_def v_def w_def using assms by arith+
  moreover have "dayFromYear y = 365 * (y - 1970) + u - v + w"
    by (simp add: dayFromYear_def u_def v_def w_def)
  ultimately have "- 1000000 \<le> dayFromYear y \<and> dayFromYear y \<le> 3000000"
    using assms by auto
  then show "- 1000000 \<le> dayFromYear y" "dayFromYear y \<le> 3000000"
    by simp_all
qed

lemma daysBeforeMonth_bounds:
  assumes "1 \<le> m" "m \<le> 12"
  shows "0 \<le> daysBeforeMonth (m - 1) leap \<and> daysBeforeMonth (m - 1) leap \<le> 335"
proof -
  have "m = 1 \<or> m = 2 \<or> m = 3 \<or> m = 4 \<or> m = 5 \<or> m = 6 \<or> m = 7 \<or> m = 8 \<or>
      m = 9 \<or> m = 10 \<or> m = 11 \<or> m = 12"
    using assms by presburger
  then show ?thesis
    by (elim disjE) (simp_all add: daysBeforeMonth_def)
qed


lemma digitValue_bounds: "isDigit c \<Longrightarrow> 0 \<le> digitValue c \<and> digitValue c \<le> 9"
  by (auto simp: isDigit_def digitValue_def)

lemma digitsValue_snoc: "digitsValue (ds @ [c]) = 10 * digitsValue ds + digitValue c"
  by (simp add: digitsValue_def)

lemma digitsValue_bounds:
  "list_all isDigit ds \<Longrightarrow> 0 \<le> digitsValue ds \<and> digitsValue ds < 10 ^ length ds"
proof (induction ds rule: rev_induct)
  case Nil
  then show ?case by (simp add: digitsValue_def)
next
  case (snoc c ds)
  then have "0 \<le> digitsValue ds" "digitsValue ds + 1 \<le> 10 ^ length ds" by simp_all
  moreover have "0 \<le> digitValue c" "digitValue c \<le> 9"
    using snoc.prems digitValue_bounds[of c] by simp_all
  ultimately show ?case
    unfolding digitsValue_snoc by (auto simp: algebra_simps)
qed

lemma newDate_digits_valid:
  assumes "0 \<le> y" "y \<le> 9999" "0 \<le> m" "m \<le> 99" "0 \<le> d" "d \<le> 99"
  shows "newDate (Some y) (Some (m - 1)) (Some d) \<noteq> InvalidDate"
proof -
  define ym mn where "ym = makeFullYear y + (m - 1) div 12" and "mn = (m - 1) mod 12"
  define q where "q = (m - 1) div 12"
  have full: "100 \<le> makeFullYear y \<and> makeFullYear y \<le> 9999"
    using assms(1,2) by (auto simp: makeFullYear_def)
  have q: "- 1 \<le> q \<and> q \<le> 8"
    unfolding q_def using assms(3,4) by arith
  have "0 \<le> ym \<and> ym \<le> 10010"
    using full q unfolding ym_def q_def [symmetric] by auto
  then have ym: "0 \<le> ym" "ym \<le> 10010" by simp_all
  have mn: "1 \<le> mn + 1" "mn + 1 \<le> 12"
    by (simp_all add: mn_def)
  define b where "b = daysBeforeMonth mn (daysInYear ym = 366)"
  have b: "0 \<le> b" "b \<le> 335"
    using daysBeforeMonth_bounds[OF mn, of "daysInYear ym = 366"] by (simp_all add: b_def)
  have day: "makeDay (makeFullYear y) (m - 1) d = dayFromYear ym + b + d - 1"
    by (simp add: makeDay_def ym_def mn_def b_def Let_def)
  have "- 1000001 \<le> makeDay (makeFullYear y) (m - 1) d \<and>
      makeDay (makeFullYear y) (m - 1) d \<le> 3000500"
    using dayFromYear_bounds[OF ym] b assms(5,6) unfolding day by auto
  then have "\<bar>makeDay (makeFullYear y) (m - 1) d * 86400000\<bar> \<le> 8640000000000000"
    by linarith
  then show ?thesis
    by (simp add: newDate_def timeClip_def msPerDay_def)
qed

lemma digitsValue_two:
  assumes "list_all isDigit ds" "length ds = 1 \<or> length ds = 2"
  shows "0 \<le> digitsValue ds \<and> digitsValue ds \<le> 99"
  using digitsValue_bounds[OF assms(1)] assms(2) by auto

lemma parseDate_valid: "parseDate v \<noteq> Some InvalidDate"
proof
  assume "parseDate v = Some InvalidDate"
  then obtain s day month year where
    m: "matchFirst (stripQuotes s) = Some (day, month, year)"
    and d: "InvalidDate = newDate (Some (digitsValue year)) (Some (digitsValue month - 1))
                  (Some (digitsValue day))"
    by (cases v) (auto simp: parseDate_def Let_def split: option.splits if_splits)
  from matchFirst_SomeD[OF m] have p: "isDatePattern day month year" by blast
  have "digitsValue year < 10 ^ 4" "0 \<le> digitsValue year"
    using p digitsValue_bounds[of year] by (simp_all add: isDatePattern_def)
  then have y: "0 \<le> digitsValue year" "digitsValue year \<le> 9999" by simp_all
  have mo: "0 \<le> digitsValue month \<and> digitsValue month \<le> 99"
    using p by (intro digitsValue_two) (simp_all add: isDatePattern_def)
  have da: "0 \<le> digitsValue day \<and> digitsValue day \<le> 99"
    using p by (intro digitsValue_two) (simp_all add: isDatePattern_def)
  from newDate_digits_valid[of "digitsValue year" "digitsValue month" "digitsValue day"] y mo da d
  show False by simp
qed




lemma endOfDay_le_iff: "d \<le> endOfDay t \<longleftrightarrow> d div msPerDay \<le> t div msPerDay"
proof -
  define D r Q where "D = d div 86400000" and "r = d mod 86400000" and "Q = t div 86400000"
  have "d = 86400000 * D + r" "0 \<le> r" "r < 86400000"
    by (simp_all add: D_def r_def)
  then have "d \<le> Q * 86400000 + 86399999 \<longleftrightarrow> D \<le> Q"
    by linarith
  then show ?thesis by (simp add: endOfDay_def msPerDay_def D_def Q_def)
qed

lemma dateLe_setHoursEndOfDay:
  "dateLe (DateAt d) (setHoursEndOfDay (DateAt t)) \<longleftrightarrow>
     d \<le> endOfDay t \<and> endOfDay t \<le> maxTime" if "- maxTime \<le> t" 
proof -
  have "(- 8640000000000000) div 86400000 \<le> t div (86400000 :: int)"
    using that unfolding maxTime_def by (intro zdiv_mono1) simp_all
  then have "- 8640000000000000 \<le> (t div 86400000) * 86400000"
    by simp
  then show ?thesis
    by (auto simp: dateLe_def setHoursEndOfDay_def timeClip_def endOfDay_def maxTime_def msPerDay_def)
qed

lemma newDate_range: "newDate y m d = DateAt t \<Longrightarrow> - maxTime \<le> t \<and> t \<le> maxTime"
  by (auto simp: newDate_def timeClip_def maxTime_def split: option.splits if_splits)

lemma dateLe_inputDate:
  "dateLe fromDate (DateAt d) \<and> dateLe (DateAt d) (setHoursEndOfDay (inputDate v)) \<longleftrightarrow>
     inDateRange fromDate (inputDate v) d"
proof (cases "inputDate v")
  case (DateAt t)
  then have "- maxTime \<le> t" using newDate_range unfolding inputDate_def Let_def by blast
  from dateLe_setHoursEndOfDay[OF this] show ?thesis
    by (cases fromDate) (auto simp: DateAt inDateRange_def dateLe_def)
next
  case InvalidDate
  then show ?thesis
    by (cases fromDate) (auto simp: inDateRange_def dateLe_def setHoursEndOfDay_def)
qed

text \<open>
  C4: with a date column detected and both input values non-empty, \<open>getFilteredData\<close>
  returns, in their order, exactly the rows whose cell in the date column parses to a date
  \<open>d\<close> in the range from the from-date to the end of the day of the to-date; a row
  whose cell does not parse is not returned. Being at or before the end of the to-day is
  being on a day at or before the to-day, so that the whole to-day is included. A cell that
  parses never gives an invalid date.
\<close>

theorem getFilteredData_date_range:
  assumes "csvData this = Some cd" and "dateColumn this = Some column"
    and "dateFromValue \<noteq> []" and "dateToValue \<noteq> []"
  shows "getFilteredData this dateFromValue dateToValue =
           Inr (filter
                  (\<lambda>row. \<exists>d. parseDate (getProp row column) = Some (DateAt d) \<and>
                             inDateRange (inputDate dateFromValue) (inputDate dateToValue) d)
                  (data cd)) \<and>
         (\<forall>t d. d \<le> endOfDay t \<longleftrightarrow> d div msPerDay \<le> t div msPerDay) \<and>
         (\<forall>v. parseDate v \<noteq> Some InvalidDate)"
proof -
  have "(case parseDate (getProp row column) of None \<Rightarrow> False
         | Some rowDate \<Rightarrow> dateLe (inputDate dateFromValue) rowDate \<and>
             dateLe rowDate (setHoursEndOfDay (inputDate dateToValue))) \<longleftrightarrow>
        (\<exists>d. parseDate (getProp row column) = Some (DateAt d) \<and>
              inDateRange (inputDate dateFromValue) (inputDate dateToValue) d)" for row
  proof (cases "parseDate (getProp row column)")
    case None
    then show ?thesis by simp
  next
    case (Some rowDate)
    show ?thesis
    proof (cases rowDate)
      case (DateAt d)
      then show ?thesis using Some dateLe_inputDate by simp
    next
      case InvalidDate
      then show ?thesis using Some by (simp add: dateLe_def split: jsdate.splits)
    qed
  qed
  then show ?thesis
    using assms by (simp add: getFilteredData_def Let_def endOfDay_le_iff parseDate_valid)
qed

text \<open>
  Four rows dated the 14th, the 15th (at 23:10) and the 16th of March 2024 and
  \<^verbatim>\<open>n/a\<close>, filtered from 2024-03-15 to 2024-03-15: the row of the 15th is returned.
\<close>

theorem getFilteredData_date_range_witness:
  "getFilteredData
     \<lparr>csvData = Some \<lparr>headers = [''Datum''],
                       data = [[''Datum'' \<mapsto> ''14.03.2024''], [''Datum'' \<mapsto> ''15.03.2024, 23:10''],
                               [''Datum'' \<mapsto> ''16.03.2024''], [''Datum'' \<mapsto> ''n/a'']]\<rparr>,
      dateColumn = Some ''Datum''\<rparr>
     ''2024-03-15'' ''2024-03-15'' =
   Inr [[''Datum'' \<mapsto> ''15.03.2024, 23:10'']]"
proof -
  let ?cd = "\<lparr>headers = [''Datum''],
               data = [[''Datum'' \<mapsto> ''14.03.2024''], [''Datum'' \<mapsto> ''15.03.2024, 23:10''],
                       [''Datum'' \<mapsto> ''16.03.2024''], [''Datum'' \<mapsto> ''n/a'']]\<rparr>"
  let ?vis = "\<lparr>csvData = Some ?cd, dateColumn = Some ''Datum''\<rparr>"
  have i: "inputDate ''2024-03-15'' = DateAt 1710460800000"
    by code_simp
  have r: "\<And>d. inDateRange (DateAt 1710460800000) (DateAt 1710460800000) d \<longleftrightarrow>
             1710460800000 \<le> d \<and> d \<le> 1710547199999"
    by (simp add: inDateRange_def endOfDay_def maxTime_def msPerDay_def)
  have p1: "parseDate (JString ''14.03.2024'') = Some (DateAt 1710374400000)"
    by code_simp
  have p2: "parseDate (JString ''15.03.2024, 23:10'') = Some (DateAt 1710460800000)"
    by code_simp
  have p3: "parseDate (JString ''16.03.2024'') = Some (DateAt 1710547200000)"
    by code_simp
  have p4: "parseDate (JString ''n/a'') = None"
    by code_simp
  have "csvData ?vis = Some ?cd" "dateColumn ?vis = Some ''Datum''"
    "''2024-03-15'' \<noteq> []" "''2024-03-15'' \<noteq> []"
    by simp_all
  then have "getFilteredData ?vis ''2024-03-15'' ''2024-03-15'' =
           Inr (filter
                  (\<lambda>row. \<exists>d. parseDate (getProp row ''Datum'') = Some (DateAt d) \<and>
                             inDateRange (inputDate ''2024-03-15'') (inputDate ''2024-03-15'') d)
                  (data ?cd))"
    using getFilteredData_date_range[of ?vis ?cd "''Datum''" "''2024-03-15''" "''2024-03-15''"] by blast
  then show ?thesis
    by (simp add: i r p1 p2 p3 p4 getProp_def)
qed

section \<open>Properties of isNumericColumn\<close>






section \<open>Properties of getXPositionForValue\<close>








end
